theory Spec2Isabelle
  imports Main "HOL-Library.AList"
begin

section \<open>The function provider (GoogleFunctionProvider)\<close>

text \<open>
  The provider talks to a cloud backend through a client object. The client is not part of
  the repository; what each of its calls answers is supplied by the environment of the model.
  A failed call carries an error object, of which the code reads the field \<open>code\<close> only
  (the gRPC status; 5 is NOT_FOUND).
\<close>

datatype error = Error (code: "int option")

text \<open>
  What a JavaScript call can do: throw while it is being called, or hand back a promise that is
  later rejected or resolved. A function declared \<open>async\<close> never throws at the call.
\<close>

datatype 'a outcome = Threw error | Rejected error | Resolved 'a

datatype client_call =
    UploadBuffer string
  | GetFunction string
  | UpdateFunction string
  | CreateFunction string

record provider_config =
  projectId :: string
  location :: string
  bucket :: string

text \<open>The answers of the storage provider and of the functions client during one deploy.\<close>

record deploy_backend =
  uploadBuffer :: "error option"
  getFunction :: "error + unit"
  updateFunction :: "error option"
  createFunction :: "error option"

definition functionName :: "provider_config \<Rightarrow> string \<Rightarrow> string" where
  "functionName cfg fid =
     ''projects/'' @ projectId cfg @ ''/locations/'' @ location cfg @ ''/functions/function-'' @ fid"

text \<open>
  \<open>deployFunction\<close>: the archive is built in memory and uploaded, the backend is probed for a
  function of the derived name, and the function is updated or created. The result is the
  settled promise together with the client calls made, in order.
\<close>

definition deployFunction ::
  "provider_config \<Rightarrow> deploy_backend \<Rightarrow> string \<Rightarrow> string outcome \<times> client_call list" where
  "deployFunction cfg be fid =
     (let functionPath = ''functions/'' @ fid;
          up = UploadBuffer (functionPath @ ''/function.zip'');
          fname = functionName cfg fid
      in case uploadBuffer be of
           Some e \<Rightarrow> (Rejected e, [up])
         | None \<Rightarrow>
             (case getFunction be of
                Inl err \<Rightarrow>
                  if code err \<noteq> Some 5 then (Rejected err, [up, GetFunction fname])
                  else (case createFunction be of
                          Some e \<Rightarrow> (Rejected e, [up, GetFunction fname, CreateFunction fname])
                        | None \<Rightarrow> (Resolved fname, [up, GetFunction fname, CreateFunction fname]))
              | Inr _ \<Rightarrow>
                  (case updateFunction be of
                     Some e \<Rightarrow> (Rejected e, [up, GetFunction fname, UpdateFunction fname])
                   | None \<Rightarrow> (Resolved fname, [up, GetFunction fname, UpdateFunction fname]))))"

text \<open>
  \<open>getFunctionState\<close>: the state the backend reports, or the sentinel \<open>ERROR\<close> when the
  status call fails.
\<close>

definition getFunctionState :: "error + string \<Rightarrow> string" where
  "getFunctionState resp = (case resp of Inl err \<Rightarrow> ''ERROR'' | Inr st \<Rightarrow> st)"

text \<open>
  \<open>waitForFunctionToBeActive\<close>. Time is in milliseconds. The environment gives, for the
  \<open>k\<close>-th status call, its answer and how long the call takes; a sleep takes exactly
  \<open>waitTime\<close>.
  Besides the boolean the model records the number of status calls, the delays slept and the
  clock at return. The loop runs as long as the source's does, hence the option type.
\<close>

type_synonym status_env = "nat \<Rightarrow> (error + string) \<times> nat"

record wait_result =
  active :: bool
  polls :: nat
  delays :: "nat list"
  finished :: nat

partial_function (option) wait_loop ::
  "status_env \<Rightarrow> nat \<Rightarrow> nat \<Rightarrow> nat \<Rightarrow> nat \<Rightarrow> nat \<Rightarrow> nat list \<Rightarrow> wait_result option" where
  "wait_loop env startTime maxWaitTime now waitTime k ds =
     (if now - startTime < maxWaitTime then
        (if getFunctionState (fst (env k)) = ''ACTIVE'' then
           Some \<lparr>active = True, polls = Suc k, delays = ds, finished = now + snd (env k)\<rparr>
         else if getFunctionState (fst (env k)) \<noteq> ''DEPLOYING'' then
           Some \<lparr>active = False, polls = Suc k, delays = ds, finished = now + snd (env k)\<rparr>
         else wait_loop env startTime maxWaitTime (now + snd (env k) + waitTime)
                (min (waitTime * 2) 60000) (Suc k) (ds @ [waitTime]))
      else Some \<lparr>active = False, polls = k, delays = ds, finished = now\<rparr>)"

definition waitForFunctionToBeActive :: "status_env \<Rightarrow> nat \<Rightarrow> nat \<Rightarrow> wait_result option" where
  "waitForFunctionToBeActive env startTime maxWaitTime =
     wait_loop env startTime maxWaitTime startTime 5000 0 []"

text \<open>The delay sequence in the words of the specification: 5000 doubled, capped at 60000.\<close>

definition backoff :: "nat \<Rightarrow> nat" where
  "backoff i = min (5000 * 2 ^ i) 60000"


section \<open>The database layer\<close>

text \<open>
  Collections are lists of documents. \<open>updateOne\<close> is the driver's operation: the first
  document that satisfies the filter is replaced by its image under the update;
  \<open>matchedCount\<close> says whether a document satisfied the filter and \<open>modifiedCount\<close>
  whether the update changed it. Operations of the store always succeed in this model; the
  calls that can fail are those to the cloud backend.
\<close>

type_synonym oid = string

record update_result =
  matchedCount :: nat
  modifiedCount :: nat

fun updateOne :: "('d \<Rightarrow> bool) \<Rightarrow> ('d \<Rightarrow> 'd) \<Rightarrow> 'd list \<Rightarrow> update_result \<times> 'd list" where
  "updateOne flt upd [] = (\<lparr>matchedCount = 0, modifiedCount = 0\<rparr>, [])"
| "updateOne flt upd (d # ds) =
     (if flt d
      then (\<lparr>matchedCount = 1, modifiedCount = (if upd d = d then 0 else 1)\<rparr>, upd d # ds)
      else (case updateOne flt upd ds of (r, ds') \<Rightarrow> (r, d # ds')))"

subsection \<open>Assets (db/asset.ts)\<close>

text \<open>
  An asset document is its \<open>_id\<close> and its other fields by name. \<open>$set\<close> writes the fields
  of the update over those of the document.
\<close>

type_synonym 'v asset = "oid \<times> (string \<times> 'v) list"

fun set_fields :: "(string \<times> 'v) list \<Rightarrow> (string \<times> 'v) list \<Rightarrow> (string \<times> 'v) list" where
  "set_fields [] doc = doc"
| "set_fields ((k, v) # upd) doc = set_fields upd (AList.update k v doc)"

text \<open>
  \<open>updateAsset\<close>. The helper \<open>toObjectId\<close> of \<open>misc/toobjectid\<close> is a parameter; it
  may throw on an identifier that is not well formed.
\<close>

definition updateAsset ::
  "('i \<Rightarrow> error + oid) \<Rightarrow> 'i \<Rightarrow> (string \<times> 'v) list \<Rightarrow> 'v asset list
     \<Rightarrow> (error + bool) \<times> 'v asset list" where
  "updateAsset toObjectId assetId updateData coll =
     (case toObjectId assetId of
        Inl e \<Rightarrow> (Inl e, coll)
      | Inr i \<Rightarrow>
          (case updateOne (\<lambda>d. fst d = i) (\<lambda>d. (fst d, set_fields updateData (snd d))) coll of
             (result, coll') \<Rightarrow> (Inr (0 < matchedCount result), coll')))"

subsection \<open>Tools\<close>

datatype ToolType = RAG_TOOL | FUNCTION_TOOL | API_TOOL

datatype ToolState = PENDING | READY | ERROR

text \<open>
  The values the deployment-relevant fields can hold: absent, a string, or an object (the
  environment variables, a dictionary of strings).
\<close>

datatype jsval = JUndefined | JString string | JObject "(string \<times> string) list"

fun truthy :: "jsval \<Rightarrow> bool" where
  "truthy JUndefined = False"
| "truthy (JString s) = (s \<noteq> [])"
| "truthy (JObject kvs) = True"

text \<open>
  The operator \<open>!==\<close> between a value read from the parsed request body and a value read
  from a document fetched from the store. Strings compare by content. Objects compare by
  identity, and an object of the body is never the object of the fetched document.
\<close>

fun strict_neq :: "jsval \<Rightarrow> jsval \<Rightarrow> bool" where
  "strict_neq JUndefined JUndefined = False"
| "strict_neq (JString a) (JString b) = (a \<noteq> b)"
| "strict_neq x y = True"

text \<open>
  The tool document: its identifiers, name, description and type, the inputs of a deployment
  (\<open>data.code\<close>, \<open>data.requirements\<close>, \<open>data.environmentVariables\<close>) and the status of
  the deployment. \<open>tool_runtime\<close> is the top-level field \<open>runtime\<close>, which the edit flow reads
  from the stored document and which neither \<open>addToolApi\<close> nor \<open>editToolApi\<close> writes. The
  other fields (organisation, schema, datasource, retriever, icon) are written and not read by
  the flows below.
\<close>

record tool =
  tool_id :: oid
  tool_teamId :: string
  tool_name :: string
  tool_description :: string
  tool_type :: ToolType
  tool_code :: jsval
  tool_requirements :: jsval
  tool_environmentVariables :: jsval
  tool_runtime :: jsval
  tool_state :: ToolState
  tool_functionId :: "string option"
  tool_functionLogs :: "string option"

text \<open>
  Modelled from the spec: the tool record store of \<open>db/tool\<close> (\<open>addTool\<close>,
  \<open>getToolById\<close>, \<open>editTool\<close>, \<open>editToolUnsafe\<close>, \<open>deleteToolById\<close>), by its
  contract: \<open>findOne(filter)\<close> returns the tool or nothing, \<open>updateOne(filter, patch)\<close>
  writes only if a record matches the filter and returns the count.
\<close>

definition addTool :: "tool \<Rightarrow> tool list \<Rightarrow> tool list" where
  "addTool t ts = ts @ [t]"

definition getToolById :: "string \<Rightarrow> oid \<Rightarrow> tool list \<Rightarrow> tool option" where
  "getToolById teamId toolId ts = find (\<lambda>t. tool_id t = toolId \<and> tool_teamId t = teamId) ts"

definition editTool :: "string \<Rightarrow> oid \<Rightarrow> (tool \<Rightarrow> tool) \<Rightarrow> tool list \<Rightarrow> tool list" where
  "editTool teamId toolId upd ts =
     snd (updateOne (\<lambda>t. tool_id t = toolId \<and> tool_teamId t = teamId) upd ts)"

definition editToolUnsafe ::
  "(tool \<Rightarrow> bool) \<Rightarrow> (tool \<Rightarrow> tool) \<Rightarrow> tool list \<Rightarrow> update_result \<times> tool list" where
  "editToolUnsafe flt upd ts = updateOne flt upd ts"

definition deleteToolById :: "string \<Rightarrow> oid \<Rightarrow> tool list \<Rightarrow> tool list" where
  "deleteToolById teamId toolId ts =
     (case find (\<lambda>t. tool_id t = toolId \<and> tool_teamId t = teamId) ts of
        None \<Rightarrow> ts
      | Some t \<Rightarrow> remove1 t ts)"

record agent =
  agent_id :: oid
  agent_teamId :: string
  agent_toolIds :: "oid list"

text \<open>
  Modelled from the spec: \<open>removeAgentsTool\<close> of \<open>db/agent\<close>, which removes the
  references to the tool from the dependent agents of the team.
\<close>

definition removeAgentsTool :: "string \<Rightarrow> oid \<Rightarrow> agent list \<Rightarrow> agent list" where
  "removeAgentsTool teamId toolId ags =
     map (\<lambda>a. if agent_teamId a = teamId
               then a\<lparr>agent_toolIds := removeAll toolId (agent_toolIds a)\<rparr> else a) ags"

record notification =
  n_teamId :: string
  n_target :: oid
  n_description :: string


section \<open>The tool controller\<close>

text \<open>
  The state the controller acts on: the tool and agent collections, the notifications stored,
  and the calls made to the function provider and the destructive store operations, in the
  order in which they are issued.
\<close>

datatype event =
    DeployFunction string
  | WaitForFunctionToBeActive string
  | GetFunctionLogs string
  | DeleteFunction "string option"
  | DeleteToolById oid
  | RemoveAgentsTool oid
  | EmitNotification string

record world =
  tools :: "tool list"
  agents :: "agent list"
  notifications :: "notification list"
  trace :: "event list"

definition emit :: "event list \<Rightarrow> world \<Rightarrow> world" where
  "emit es w = w\<lparr>trace := trace w @ es\<rparr>"

datatype response = DynamicResponse (statusCode: nat)

text \<open>The fields of \<open>req.body\<close> that the controller reads; \<open>b_code\<close>, \<open>b_requirements\<close> and
  \<open>b_environmentVariables\<close> are the fields of \<open>data\<close>.\<close>

record body =
  b_name :: string
  b_type :: ToolType
  b_description :: string
  b_toolId :: oid
  b_datasourceId :: "string option"
  b_code :: jsval
  b_requirements :: jsval
  b_environmentVariables :: jsval
  b_runtime :: jsval

text \<open>
  What the surroundings of one request answer: the team of the route, the verdict of
  \<open>validateTool\<close> (its rules are run by \<open>chainValidations\<close> of \<open>utils/validationUtils\<close>),
  the datasource lookup, the constant \<open>runtimeValues\<close>, the identifier \<open>uuidv4()\<close> returns,
  the identifier of the inserted document, how the call of \<open>deployFunction\<close> settles, and how
  an awaited \<open>deleteFunction\<close> settles.
\<close>

record request_env =
  resourceSlug :: string
  validationError :: "string option"
  foundDatasource :: bool
  runtimeValues :: "string list"
  uuidv4 :: string
  insertedId :: "oid option"
  deployed :: "string outcome"
  deleted :: "error option"

definition invalidDatasource :: "request_env \<Rightarrow> body \<Rightarrow> bool" where
  "invalidDatasource env b =
     (case b_datasourceId b of
        None \<Rightarrow> False
      | Some d \<Rightarrow> d \<noteq> [] \<and> length d \<noteq> 24 \<and> \<not> foundDatasource env)"

definition invalidRuntime :: "request_env \<Rightarrow> body \<Rightarrow> bool" where
  "invalidRuntime env b =
     (truthy (b_runtime b) \<and>
      (case b_runtime b of
         JString r \<Rightarrow> r \<notin> set (runtimeValues env)
       | _ \<Rightarrow> True))"

text \<open>What the asynchronous part of a create request keeps from the request.\<close>

record add_attempt =
  a_insertedId :: oid
  a_teamId :: string
  a_functionId :: string
  a_name :: string

definition deployNotification :: "string \<Rightarrow> oid \<Rightarrow> string \<Rightarrow> bool \<Rightarrow> notification" where
  "deployNotification teamId target nm isActive =
     \<lparr>n_teamId = teamId, n_target = target,
      n_description = ''Custom code tool \"'' @ nm @ ''\" ''
        @ (if isActive then ''deployed successfully'' else ''failed to deploy'') @ ''.''\<rparr>"

text \<open>\<open>addNotification\<close> followed by the broadcast to the team's channel.\<close>

definition notify :: "string \<Rightarrow> notification \<Rightarrow> world \<Rightarrow> world" where
  "notify channel n w =
     emit [EmitNotification channel] (w\<lparr>notifications := notifications w @ [n]\<rparr>)"

text \<open>
  \<open>addToolApi\<close>, up to the response. \<open>deployFunction\<close> is called inside \<open>try\<close> without
  \<open>await\<close>: the \<open>catch\<close> block runs only if the call itself throws, a rejected promise has no
  handler, and a resolved one continues in \<open>addToolApi_deployed\<close>, for which the attempt is
  returned.
\<close>

definition addToolApi ::
  "request_env \<Rightarrow> body \<Rightarrow> world \<Rightarrow> response \<times> world \<times> add_attempt option" where
  "addToolApi env b w =
     (case validationError env of
        Some err \<Rightarrow> (DynamicResponse 400, w, None)
      | None \<Rightarrow>
          if invalidDatasource env b then (DynamicResponse 400, w, None)
          else if invalidRuntime env b then (DynamicResponse 400, w, None)
          else
            (let isFunctionTool = (b_type b = FUNCTION_TOOL);
                 functionId = (if isFunctionTool then Some (uuidv4 env) else None)
             in case insertedId env of
                  None \<Rightarrow> (DynamicResponse 400, w, None)
                | Some iid \<Rightarrow>
                    (let w1 = w\<lparr>tools := addTool
                           \<lparr>tool_id = iid, tool_teamId = resourceSlug env, tool_name = b_name b,
                            tool_description = b_description b, tool_type = b_type b,
                            tool_code = b_code b, tool_requirements = b_requirements b,
                            tool_environmentVariables = b_environmentVariables b,
                            tool_runtime = JUndefined,
                            tool_state = (if isFunctionTool then PENDING else READY),
                            tool_functionId = functionId, tool_functionLogs = None\<rparr> (tools w)\<rparr>
                     in if isFunctionTool then
                          (let w2 = emit [DeployFunction (uuidv4 env)] w1
                           in case deployed env of
                                Threw e \<Rightarrow>
                                  (DynamicResponse 400,
                                   (emit [DeleteFunction functionId] w2)
                                     \<lparr>tools := editTool (resourceSlug env) iid
                                        (\<lambda>t. t\<lparr>tool_state := ERROR\<rparr>) (tools w2)\<rparr>,
                                   None)
                              | Rejected e \<Rightarrow> (DynamicResponse 302, w2, None)
                              | Resolved fname \<Rightarrow>
                                  (DynamicResponse 302, w2,
                                   Some \<lparr>a_insertedId = iid, a_teamId = resourceSlug env,
                                         a_functionId = uuidv4 env, a_name = b_name b\<rparr>))
                        else (DynamicResponse 302, w1, None))))"

definition logsTruthy :: "string option \<Rightarrow> bool" where
  "logsTruthy logs = (case logs of None \<Rightarrow> False | Some l \<Rightarrow> l \<noteq> [])"

text \<open>
  The rest of the create flow. \<open>addToolApi_resolved\<close> is the callback that runs when the wait
  has resolved with \<open>isActive\<close>: the logs (absent if fetching them fails), the conditional
  update and the clean-up. \<open>addToolApi_deployed\<close> is the callback that runs when the deploy
  promise has resolved: it starts the wait, whose promise is resolved or rejected.
\<close>

definition addToolApi_resolved ::
  "bool \<Rightarrow> string option \<Rightarrow> add_attempt \<Rightarrow> world \<Rightarrow> world" where
  "addToolApi_resolved isActive logs att w =
     (let functionId = a_functionId att;
          w2 = emit [GetFunctionLogs functionId] w
      in case editToolUnsafe
             (\<lambda>t. tool_id t = a_insertedId att \<and> tool_teamId t = a_teamId att \<and>
                  tool_functionId t = Some functionId \<and> tool_type t = FUNCTION_TOOL)
             (\<lambda>t. t\<lparr>tool_state := (if isActive then READY else ERROR),
                    tool_functionLogs :=
                      (if \<not> isActive \<and> logsTruthy logs then logs else tool_functionLogs t)\<rparr>)
             (tools w2) of
           (editedRes, ts) \<Rightarrow>
             (let w3 = w2\<lparr>tools := ts\<rparr>
              in if modifiedCount editedRes = 0 then emit [DeleteFunction (Some functionId)] w3
                 else
                   (let w4 = (if \<not> isActive then emit [DeleteFunction (Some functionId)] w3
                              else w3)
                    in notify (a_teamId att)
                         (deployNotification (a_teamId att) (a_insertedId att)
                            (a_name att) isActive) w4)))"

definition addToolApi_deployed ::
  "error + bool \<Rightarrow> string option \<Rightarrow> add_attempt \<Rightarrow> world \<Rightarrow> world" where
  "addToolApi_deployed waited logs att w =
     (let w1 = emit [WaitForFunctionToBeActive (a_functionId att)] w
      in case waited of
           Inl e \<Rightarrow> w1
         | Inr isActive \<Rightarrow> addToolApi_resolved isActive logs att w1)"

text \<open>What the asynchronous part of an edit request keeps: the new function identifier and the
  tool as it was read at the start of the request.\<close>

record edit_attempt =
  e_toolId :: oid
  e_teamId :: string
  e_functionId :: string
  e_name :: string
  e_existingTool :: tool

definition functionNeedsUpdate :: "body \<Rightarrow> tool \<Rightarrow> bool" where
  "functionNeedsUpdate b existingTool =
     (strict_neq (b_environmentVariables b) (tool_environmentVariables existingTool) \<or>
      strict_neq (b_code b) (tool_code existingTool) \<or>
      strict_neq (b_requirements b) (tool_requirements existingTool) \<or>
      strict_neq (b_runtime b) (tool_runtime existingTool))"

definition functionIdTruthy :: "string option \<Rightarrow> bool" where
  "functionIdTruthy fid = (case fid of None \<Rightarrow> False | Some f \<Rightarrow> f \<noteq> [])"

text \<open>
  \<open>editToolApi\<close>, up to the response. The result is \<open>Inl\<close> when the handler itself is rejected,
  which the awaited \<open>deleteFunction\<close> of the type-change branch can cause.
\<close>

definition editToolApi ::
  "request_env \<Rightarrow> body \<Rightarrow> world \<Rightarrow> (error + response) \<times> world \<times> edit_attempt option" where
  "editToolApi env b w =
     (case validationError env of
        Some err \<Rightarrow> (Inr (DynamicResponse 400), w, None)
      | None \<Rightarrow>
          if invalidDatasource env b then (Inr (DynamicResponse 400), w, None)
          else
            (case getToolById (resourceSlug env) (b_toolId b) (tools w) of
               None \<Rightarrow> (Inr (DynamicResponse 400), w, None)
             | Some existingTool \<Rightarrow>
                 (let isFunctionTool = (b_type b = FUNCTION_TOOL);
                      needsUpdate = functionNeedsUpdate b existingTool;
                      w1 = w\<lparr>tools := editTool (resourceSlug env) (b_toolId b)
                             (\<lambda>t. t\<lparr>tool_name := b_name b, tool_type := b_type b,
                                    tool_description := b_description b,
                                    tool_code := b_code b,
                                    tool_requirements := b_requirements b,
                                    tool_environmentVariables := b_environmentVariables b,
                                    tool_state := (if isFunctionTool then PENDING else READY)\<rparr>)
                             (tools w)\<rparr>
                  in if tool_type existingTool = FUNCTION_TOOL \<and> b_type b \<noteq> FUNCTION_TOOL then
                       (let w2 = emit [DeleteFunction (tool_functionId existingTool)] w1
                        in case deleted env of
                             Some e \<Rightarrow> (Inl e, w2, None)
                           | None \<Rightarrow> (Inr (DynamicResponse 302), w2, None))
                     else if b_type b = FUNCTION_TOOL \<and> needsUpdate then
                       (let functionId = uuidv4 env;
                            w2 = emit [DeployFunction functionId] w1
                        in case deployed env of
                             Threw e \<Rightarrow>
                               (Inr (DynamicResponse 400),
                                (emit [DeleteFunction (Some functionId)] w2)
                                  \<lparr>tools := editTool (resourceSlug env) (b_toolId b)
                                     (\<lambda>t. t\<lparr>tool_state := ERROR\<rparr>) (tools w2)\<rparr>,
                                None)
                           | Rejected e \<Rightarrow> (Inr (DynamicResponse 302), w2, None)
                           | Resolved fname \<Rightarrow>
                               (Inr (DynamicResponse 302), w2,
                                Some \<lparr>e_toolId = b_toolId b, e_teamId = resourceSlug env,
                                      e_functionId = functionId, e_name = b_name b,
                                      e_existingTool = existingTool\<rparr>))
                     else (Inr (DynamicResponse 302), w1, None))))"

text \<open>The rest of the edit flow, in the same two callbacks.\<close>

definition editToolApi_resolved ::
  "bool \<Rightarrow> string option \<Rightarrow> edit_attempt \<Rightarrow> world \<Rightarrow> world" where
  "editToolApi_resolved isActive logs att w =
     (let functionId = e_functionId att;
          existingTool = e_existingTool att;
          w2 = emit [GetFunctionLogs functionId] w
      in case editToolUnsafe
             (\<lambda>t. tool_id t = e_toolId att \<and> tool_teamId t = e_teamId att \<and>
                  tool_state t = PENDING \<and> tool_type t = FUNCTION_TOOL)
             (\<lambda>t. t\<lparr>tool_state := (if isActive then READY else ERROR),
                    tool_functionId :=
                      (if isActive then Some functionId else tool_functionId t),
                    tool_functionLogs :=
                      (if \<not> isActive \<and> logsTruthy logs then logs else tool_functionLogs t)\<rparr>)
             (tools w2) of
           (editedRes, ts) \<Rightarrow>
             (let w3 = w2\<lparr>tools := ts\<rparr>
              in if modifiedCount editedRes = 0 then emit [DeleteFunction (Some functionId)] w3
                 else
                   (let w4 = notify (e_teamId att)
                               (deployNotification (tool_teamId existingTool)
                                  (tool_id existingTool) (e_name att) isActive) w3;
                        w5 = (if \<not> isActive then emit [DeleteFunction (Some functionId)] w4
                              else w4)
                    in if isActive \<and> functionIdTruthy (tool_functionId existingTool)
                       then emit [DeleteFunction (tool_functionId existingTool)] w5
                       else w5)))"

definition editToolApi_deployed ::
  "error + bool \<Rightarrow> string option \<Rightarrow> edit_attempt \<Rightarrow> world \<Rightarrow> world" where
  "editToolApi_deployed waited logs att w =
     (let w1 = emit [WaitForFunctionToBeActive (e_functionId att)] w
      in case waited of
           Inl e \<Rightarrow> w1
         | Inr isActive \<Rightarrow> editToolApi_resolved isActive logs att w1)"

text \<open>
  \<open>deleteToolApi\<close>. The backend function is deleted with \<open>await\<close>; if that is rejected the
  handler is rejected and nothing after it runs. \<open>removeTool\<close> is the end of the handler: the
  two removals started together, then the response.
\<close>

definition removeTool :: "request_env \<Rightarrow> oid \<Rightarrow> world \<Rightarrow> (error + response) \<times> world" where
  "removeTool env toolId w =
     (Inr (DynamicResponse 302),
      (emit [DeleteToolById toolId, RemoveAgentsTool toolId] w)
        \<lparr>tools := deleteToolById (resourceSlug env) toolId (tools w),
         agents := removeAgentsTool (resourceSlug env) toolId (agents w)\<rparr>)"

definition deleteToolApi ::
  "request_env \<Rightarrow> oid \<Rightarrow> world \<Rightarrow> (error + response) \<times> world" where
  "deleteToolApi env toolId w =
     (if toolId = [] \<or> length toolId \<noteq> 24 then (Inr (DynamicResponse 400), w)
      else
        (case getToolById (resourceSlug env) toolId (tools w) of
           None \<Rightarrow> (Inr (DynamicResponse 404), w)
         | Some existingTool \<Rightarrow>
             if tool_type existingTool = FUNCTION_TOOL then
               (let w1 = emit [DeleteFunction (tool_functionId existingTool)] w
                in case deleted env of
                     Some e \<Rightarrow> (Inl e, w1)
                   | None \<Rightarrow> removeTool env toolId w1)
             else removeTool env toolId w))"

section \<open>Concrete inputs\<close>

text \<open>
  Backends, status sequences, requests and stores on which the results below are run. The
  worlds \<open>world_created\<close> and \<open>world_edited\<close> are what a create request and a following edit
  request with new code leave behind (shown below); \<open>world_b_failed\<close> and \<open>world_b_active\<close>
  are what the edit's deployment then makes of the store, when its function fails to activate
  and when it activates.
\<close>

definition cfg0 :: provider_config where
  "cfg0 = \<lparr>projectId = ''acme'', location = ''us-central1'', bucket = ''artifacts''\<rparr>"

definition backend_absent :: deploy_backend where
  "backend_absent = \<lparr>uploadBuffer = None, getFunction = Inl (Error (Some 5)),
     updateFunction = None, createFunction = None\<rparr>"

definition backend_present :: deploy_backend where
  "backend_present = \<lparr>uploadBuffer = None, getFunction = Inr (),
     updateFunction = None, createFunction = None\<rparr>"

definition backend_denied :: deploy_backend where
  "backend_denied = \<lparr>uploadBuffer = None, getFunction = Inl (Error (Some 7)),
     updateFunction = None, createFunction = None\<rparr>"

definition backend_create_fails :: deploy_backend where
  "backend_create_fails = \<lparr>uploadBuffer = None, getFunction = Inl (Error (Some 5)),
     updateFunction = None, createFunction = Some (Error (Some 3))\<rparr>"

definition always_deploying :: status_env where
  "always_deploying k = (Inr ''DEPLOYING'', 0)"

definition failed_at_once :: status_env where
  "failed_at_once k = (if k = 0 then (Inr ''FAILED'', 120) else (Inr ''ACTIVE'', 0))"

definition active_third :: status_env where
  "active_third k = (if k < 2 then (Inr ''DEPLOYING'', 300) else (Inr ''ACTIVE'', 250))"

definition status_call_fails :: status_env where
  "status_call_fails k = (Inl (Error (Some 14)), 40)"

definition idOfString :: "string \<Rightarrow> error + oid" where
  "idOfString s = (if length s = 24 then Inr s else Inl (Error None))"

definition assets0 :: "string asset list" where
  "assets0 = [(''665f1c2ab3d4e5f60718293a'', [(''filename'', ''icon.png''), (''mimeType'', ''image/png'')])]"

definition world0 :: world where
  "world0 = \<lparr>tools = [], agents = [], notifications = [], trace = []\<rparr>"

definition env_create :: request_env where
  "env_create = \<lparr>resourceSlug = ''team-1'', validationError = None, foundDatasource = True,
     runtimeValues = [''python310'', ''python312''], uuidv4 = ''fn-a'',
     insertedId = Some ''aaaaaaaaaaaaaaaaaaaaaaaa'',
     deployed = Resolved ''projects/acme/locations/us-central1/functions/function-fn-a'',
     deleted = None\<rparr>"

definition body_function :: body where
  "body_function = \<lparr>b_name = ''adder'', b_type = FUNCTION_TOOL, b_description = ''adds numbers'',
     b_toolId = [], b_datasourceId = None, b_code = JString ''def handler(): return 1'',
     b_requirements = JString ''requests'',
     b_environmentVariables = JObject [(''GREETING'', ''hello'')],
     b_runtime = JString ''python310''\<rparr>"

definition body_rag :: body where
  "body_rag = \<lparr>b_name = ''docs'', b_type = RAG_TOOL, b_description = ''searches the docs'',
     b_toolId = [], b_datasourceId = Some ''dddddddddddddddddddddddd'', b_code = JUndefined,
     b_requirements = JUndefined, b_environmentVariables = JUndefined,
     b_runtime = JUndefined\<rparr>"

definition tool_adder :: tool where
  "tool_adder = \<lparr>tool_id = ''aaaaaaaaaaaaaaaaaaaaaaaa'', tool_teamId = ''team-1'',
     tool_name = ''adder'', tool_description = ''adds numbers'', tool_type = FUNCTION_TOOL,
     tool_code = JString ''def handler(): return 1'', tool_requirements = JString ''requests'',
     tool_environmentVariables = JObject [(''GREETING'', ''hello'')],
     tool_runtime = JUndefined,
     tool_state = PENDING, tool_functionId = Some ''fn-a'', tool_functionLogs = None\<rparr>"

definition attempt_a :: add_attempt where
  "attempt_a = \<lparr>a_insertedId = ''aaaaaaaaaaaaaaaaaaaaaaaa'', a_teamId = ''team-1'',
     a_functionId = ''fn-a'', a_name = ''adder''\<rparr>"

definition world_created :: world where
  "world_created = \<lparr>tools = [tool_adder], agents = [], notifications = [],
     trace = [DeployFunction ''fn-a'']\<rparr>"

definition world_rag :: world where
  "world_rag =
     \<lparr>tools = [\<lparr>tool_id = ''aaaaaaaaaaaaaaaaaaaaaaaa'', tool_teamId = ''team-1'',
          tool_name = ''docs'', tool_description = ''searches the docs'', tool_type = RAG_TOOL,
          tool_code = JUndefined, tool_requirements = JUndefined,
          tool_environmentVariables = JUndefined, tool_runtime = JUndefined,
          tool_state = READY, tool_functionId = None, tool_functionLogs = None\<rparr>],
      agents = [], notifications = [], trace = []\<rparr>"

definition env_denied :: request_env where
  "env_denied = env_create\<lparr>deployed := fst (deployFunction cfg0 backend_denied ''fn-a'')\<rparr>"

definition env_create_fails :: request_env where
  "env_create_fails =
     env_create\<lparr>deployed := fst (deployFunction cfg0 backend_create_fails ''fn-a'')\<rparr>"

definition env_edit :: request_env where
  "env_edit = env_create\<lparr>uuidv4 := ''fn-b'',
     deployed := Resolved ''projects/acme/locations/us-central1/functions/function-fn-b''\<rparr>"

definition body_new_code :: body where
  "body_new_code = body_function\<lparr>b_toolId := ''aaaaaaaaaaaaaaaaaaaaaaaa'',
     b_code := JString ''def handler(): return 2''\<rparr>"

definition tool_edited :: tool where
  "tool_edited = tool_adder\<lparr>tool_code := JString ''def handler(): return 2''\<rparr>"

definition attempt_b :: edit_attempt where
  "attempt_b = \<lparr>e_toolId = ''aaaaaaaaaaaaaaaaaaaaaaaa'', e_teamId = ''team-1'',
     e_functionId = ''fn-b'', e_name = ''adder'', e_existingTool = tool_adder\<rparr>"

definition attempt_e :: edit_attempt where
  "attempt_e = \<lparr>e_toolId = ''aaaaaaaaaaaaaaaaaaaaaaaa'', e_teamId = ''team-1'',
     e_functionId = ''fn-e'', e_name = ''adder'', e_existingTool = tool_adder\<rparr>"

definition world_edited :: world where
  "world_edited = \<lparr>tools = [tool_edited], agents = [], notifications = [],
     trace = [DeployFunction ''fn-a'', DeployFunction ''fn-b'']\<rparr>"

definition world_b_failed :: world where
  "world_b_failed = editToolApi_resolved False (Some ''ModuleNotFoundError'') attempt_b world_edited"

definition world_b_active :: world where
  "world_b_active = editToolApi_resolved True None attempt_b world_edited"

definition tool_ready :: tool where
  "tool_ready = tool_adder\<lparr>tool_state := READY, tool_functionId := Some ''fn-123''\<rparr>"

definition agent_using_adder :: agent where
  "agent_using_adder = \<lparr>agent_id = ''cccccccccccccccccccccccc'', agent_teamId = ''team-1'',
     agent_toolIds = [''aaaaaaaaaaaaaaaaaaaaaaaa'']\<rparr>"

definition world_ready :: world where
  "world_ready = \<lparr>tools = [tool_ready], agents = [agent_using_adder], notifications = [],
     trace = []\<rparr>"

definition body_describe :: body where
  "body_describe = body_function\<lparr>b_toolId := ''aaaaaaaaaaaaaaaaaaaaaaaa'',
     b_description := ''adds two numbers'', b_runtime := JUndefined\<rparr>"

definition world_ready_noenv :: world where
  "world_ready_noenv = \<lparr>tools = [tool_ready\<lparr>tool_environmentVariables := JUndefined\<rparr>],
     agents = [agent_using_adder], notifications = [], trace = []\<rparr>"

definition body_describe_noenv :: body where
  "body_describe_noenv = body_describe\<lparr>b_environmentVariables := JUndefined\<rparr>"


section \<open>The wait loop\<close>

lemma backoff_step: "min (backoff k * 2) 60000 = backoff (Suc k)"
  by (simp add: backoff_def min_def)

text \<open>
  The loop returns, whatever the backend answers, and what it returns is determined by the
  answers: entered at the \<open>k\<close>-th status call with the \<open>k\<close>-th delay of the sequence, it has
  slept a prefix of the sequence, every status before the last one seen was \<open>DEPLOYING\<close>, the
  result is true exactly if the last one was \<open>ACTIVE\<close>, and the clock at return is less than
  one status call and one delay past the limit.
\<close>

lemma wait_loop_props:
  assumes "s \<le> now"
  shows "\<exists>r. wait_loop env s m now (backoff k) k (map backoff [0..<k]) = Some r \<and>
         k \<le> polls r \<and>
         map backoff [0..<length (delays r)] = delays r \<and>
         (\<forall>j. k \<le> j \<and> Suc j < polls r \<longrightarrow> getFunctionState (fst (env j)) = ''DEPLOYING'') \<and>
         (active r \<longleftrightarrow> k < polls r \<and> getFunctionState (fst (env (polls r - 1))) = ''ACTIVE'') \<and>
         (polls r = k \<longrightarrow> finished r = now \<and> \<not> now - s < m) \<and>
         (k < polls r \<longrightarrow> finished r < s + m + snd (env (polls r - 1)) + backoff (polls r - 1))"
  using assms
proof (induction "m - (now - s)" arbitrary: now k rule: less_induct)
  case less
  show ?case
  proof (cases "now - s < m")
    case False
    then show ?thesis
      by (subst wait_loop.simps) auto
  next
    case True
    note inr = True
    show ?thesis
    proof (cases "getFunctionState (fst (env k)) = ''ACTIVE''")
      case True
      with inr less.prems show ?thesis
        by (subst wait_loop.simps) (auto simp: backoff_def)
    next
      case False
      note na = False
      show ?thesis
      proof (cases "getFunctionState (fst (env k)) = ''DEPLOYING''")
        case False
        with inr na less.prems show ?thesis
          by (subst wait_loop.simps) (auto simp: backoff_def)
      next
        case True
        have pos: "0 < backoff k" by (simp add: backoff_def)
        let ?now = "now + snd (env k) + backoff k"
        have dec: "m - (?now - s) < m - (now - s)" using inr less.prems pos by linarith
        have le: "s \<le> ?now" using less.prems by simp
        from less.hyps[OF dec le, of "Suc k"]
        obtain r where r: "wait_loop env s m ?now (backoff (Suc k)) (Suc k) (map backoff [0..<Suc k]) = Some r"
          and p1: "Suc k \<le> polls r"
          and p2: "map backoff [0..<length (delays r)] = delays r"
          and p3: "\<forall>j. Suc k \<le> j \<and> Suc j < polls r \<longrightarrow> getFunctionState (fst (env j)) = ''DEPLOYING''"
          and p4: "active r \<longleftrightarrow> Suc k < polls r \<and> getFunctionState (fst (env (polls r - 1))) = ''ACTIVE''"
          and p5: "polls r = Suc k \<longrightarrow> finished r = ?now \<and> \<not> ?now - s < m"
          and p6: "Suc k < polls r \<longrightarrow> finished r < s + m + snd (env (polls r - 1)) + backoff (polls r - 1)"
          by blast
        have eq: "wait_loop env s m now (backoff k) k (map backoff [0..<k]) = Some r"
          using inr na True r by (subst wait_loop.simps) (simp add: backoff_step)
        have a1: "k \<le> polls r" using p1 by simp
        have a3: "\<forall>j. k \<le> j \<and> Suc j < polls r \<longrightarrow> getFunctionState (fst (env j)) = ''DEPLOYING''"
        proof (intro allI impI)
          fix j assume j: "k \<le> j \<and> Suc j < polls r"
          show "getFunctionState (fst (env j)) = ''DEPLOYING''"
          proof (cases "j = k")
            case True then show ?thesis using \<open>getFunctionState (fst (env k)) = ''DEPLOYING''\<close> by simp
          next
            case False then show ?thesis using p3 j by simp
          qed
        qed
        have a4: "active r \<longleftrightarrow> k < polls r \<and> getFunctionState (fst (env (polls r - 1))) = ''ACTIVE''"
        proof (cases "polls r = Suc k")
          case True
          then show ?thesis using p4 na by simp
        next
          case False
          then show ?thesis using p4 p1 by auto
        qed
        have a5: "polls r = k \<longrightarrow> finished r = now \<and> \<not> now - s < m" using p1 by simp
        have a6: "k < polls r \<longrightarrow> finished r < s + m + snd (env (polls r - 1)) + backoff (polls r - 1)"
        proof (cases "polls r = Suc k")
          case True
          then show ?thesis using p5 inr less.prems by simp
        next
          case False
          then show ?thesis using p6 p1 by simp
        qed
        show ?thesis
          by (rule exI[of _ r]) (intro conjI eq a1 p2 a3 a4 a5 a6)
      qed
    qed
  qed
qed

lemma backoff_prefix: "map backoff [0..<5] = [5000, 10000, 20000, 40000, 60000]"
  by (simp add: backoff_def upt_rec)

lemma backoff_capped: "4 \<le> i \<Longrightarrow> backoff i = 60000"
proof -
  assume "4 \<le> i"
  then have "(2::nat) ^ 4 \<le> 2 ^ i" by (rule power_increasing) simp
  then show ?thesis by (simp add: backoff_def)
qed

lemma backoff_le: "backoff i \<le> 60000"
  by (simp add: backoff_def)

lemma always_deploying_run:
  "waitForFunctionToBeActive always_deploying 0 180000 =
     Some \<lparr>active = False, polls = 6, delays = [5000, 10000, 20000, 40000, 60000, 60000],
           finished = 195000\<rparr>"
  by (simp add: waitForFunctionToBeActive_def wait_loop.simps always_deploying_def
      getFunctionState_def)

lemma backoff_six: "map backoff [0..<6] = [5000, 10000, 20000, 40000, 60000, 60000]"
  by (simp add: backoff_def upt_rec)

text \<open>
  C4 (backoff bounds). For every call of \<open>waitForFunctionToBeActive\<close> the loop returns; the
  delays it slept are the first delays of the sequence 5000, 10000, 20000, 40000, 60000,
  60000, ... (5000 doubled each time, capped at 60000); and when it returns false, the time
  since the start exceeds \<open>maxWaitTime\<close> by no more than one poll interval, which is the last
  status call and the delay after it, hence by no more than 60000 when status calls take no
  time.
\<close>

theorem backoff_bounds:
  "\<exists>r. waitForFunctionToBeActive env startTime maxWaitTime = Some r \<and>
       map backoff [0..<length (delays r)] = delays r \<and>
       map backoff [0..<5] = [5000, 10000, 20000, 40000, 60000] \<and>
       (\<forall>i. 4 \<le> i \<longrightarrow> backoff i = 60000) \<and>
       (\<not> active r \<longrightarrow>
          finished r \<le> startTime + maxWaitTime + (snd (env (polls r - 1)) + backoff (polls r - 1))) \<and>
       (\<not> active r \<and> (\<forall>k. snd (env k) = 0) \<longrightarrow> finished r \<le> startTime + maxWaitTime + 60000)"
proof -
  from wait_loop_props[OF le_refl, of env startTime maxWaitTime 0]
  obtain r where r: "wait_loop env startTime maxWaitTime startTime (backoff 0) 0 (map backoff [0..<0]) = Some r"
    and d: "map backoff [0..<length (delays r)] = delays r"
    and z: "polls r = 0 \<longrightarrow> finished r = startTime \<and> \<not> startTime - startTime < maxWaitTime"
    and b: "0 < polls r \<longrightarrow> finished r < startTime + maxWaitTime + snd (env (polls r - 1)) + backoff (polls r - 1)"
    by auto
  have w: "waitForFunctionToBeActive env startTime maxWaitTime = Some r"
    using r by (simp add: waitForFunctionToBeActive_def backoff_def)
  have bound: "finished r \<le> startTime + maxWaitTime + (snd (env (polls r - 1)) + backoff (polls r - 1))"
    using z b by (cases "polls r = 0") auto
  have bound0: "\<not> active r \<and> (\<forall>k. snd (env k) = 0) \<longrightarrow> finished r \<le> startTime + maxWaitTime + 60000"
    using bound backoff_le[of "polls r - 1"] by auto
  have pre: "map backoff [0..<5] = [5000, 10000, 20000, 40000, 60000]"
    by (rule backoff_prefix)
  have cap: "\<forall>i. 4 \<le> i \<longrightarrow> backoff i = 60000"
    by (simp add: backoff_capped)
  have bound': "\<not> active r \<longrightarrow>
          finished r \<le> startTime + maxWaitTime + (snd (env (polls r - 1)) + backoff (polls r - 1))"
    using bound by simp
  show ?thesis
    by (rule exI[of _ r]) (intro conjI w d bound' bound0 pre cap)
qed

theorem backoff_bounds_witness:
  "waitForFunctionToBeActive always_deploying 0 180000 =
     Some \<lparr>active = False, polls = 6, delays = [5000, 10000, 20000, 40000, 60000, 60000],
           finished = 195000\<rparr> \<and>
   [5000, 10000, 20000, 40000, 60000, 60000] = map backoff [0..<6] \<and>
   (195000::nat) \<le> 0 + 180000 + 60000"
  using backoff_bounds[of always_deploying 0 180000] always_deploying_run backoff_six
  by simp

lemma failed_at_once_run:
  "waitForFunctionToBeActive failed_at_once 0 180000 =
     Some \<lparr>active = False, polls = 1, delays = [], finished = 120\<rparr>"
  by (simp add: waitForFunctionToBeActive_def wait_loop.simps failed_at_once_def getFunctionState_def)

lemma status_call_fails_run:
  "waitForFunctionToBeActive status_call_fails 0 180000 =
     Some \<lparr>active = False, polls = 1, delays = [], finished = 40\<rparr>"
  by (simp add: waitForFunctionToBeActive_def wait_loop.simps status_call_fails_def getFunctionState_def)

lemma active_third_run:
  "waitForFunctionToBeActive active_third 0 180000 =
     Some \<lparr>active = True, polls = 3, delays = [5000, 10000], finished = 15850\<rparr>"
  by (simp add: waitForFunctionToBeActive_def wait_loop.simps active_third_def getFunctionState_def)

text \<open>
  C5 (short-circuit). A status of \<open>ACTIVE\<close> is seen at most once, at the last status call, and
  the result is then true; a true result comes from nothing else. If the first status call
  answers anything other than \<open>ACTIVE\<close> or \<open>DEPLOYING\<close> (the sentinel \<open>ERROR\<close> of a failed
  status call included), the result is false after that one call, without any sleep.
\<close>

theorem short_circuit:
  "\<exists>r. waitForFunctionToBeActive env startTime maxWaitTime = Some r \<and>
       (\<forall>j<polls r. getFunctionState (fst (env j)) = ''ACTIVE'' \<longrightarrow> active r \<and> polls r = Suc j) \<and>
       (active r \<longrightarrow> 0 < polls r \<and> getFunctionState (fst (env (polls r - 1))) = ''ACTIVE'') \<and>
       (0 < maxWaitTime \<and> getFunctionState (fst (env 0)) \<noteq> ''ACTIVE'' \<and>
        getFunctionState (fst (env 0)) \<noteq> ''DEPLOYING'' \<longrightarrow>
          \<not> active r \<and> polls r = 1 \<and> delays r = [])"
proof -
  from wait_loop_props[OF le_refl, of env startTime maxWaitTime 0]
  obtain r where r: "wait_loop env startTime maxWaitTime startTime (backoff 0) 0 (map backoff [0..<0]) = Some r"
    and p3: "\<forall>j. 0 \<le> j \<and> Suc j < polls r \<longrightarrow> getFunctionState (fst (env j)) = ''DEPLOYING''"
    and p4: "active r \<longleftrightarrow> 0 < polls r \<and> getFunctionState (fst (env (polls r - 1))) = ''ACTIVE''"
    by auto
  have w: "waitForFunctionToBeActive env startTime maxWaitTime = Some r"
    using r by (simp add: waitForFunctionToBeActive_def backoff_def)
  have c1: "\<forall>j<polls r. getFunctionState (fst (env j)) = ''ACTIVE'' \<longrightarrow> active r \<and> polls r = Suc j"
  proof (intro allI impI)
    fix j assume j: "j < polls r" and a: "getFunctionState (fst (env j)) = ''ACTIVE''"
    have "\<not> Suc j < polls r" using p3 a by auto
    then have e: "polls r = Suc j" using j by simp
    then show "active r \<and> polls r = Suc j" using p4 a by simp
  qed
  have c3: "0 < maxWaitTime \<and> getFunctionState (fst (env 0)) \<noteq> ''ACTIVE'' \<and>
        getFunctionState (fst (env 0)) \<noteq> ''DEPLOYING'' \<longrightarrow>
          \<not> active r \<and> polls r = 1 \<and> delays r = []"
  proof
    assume h: "0 < maxWaitTime \<and> getFunctionState (fst (env 0)) \<noteq> ''ACTIVE'' \<and>
        getFunctionState (fst (env 0)) \<noteq> ''DEPLOYING''"
    then have "waitForFunctionToBeActive env startTime maxWaitTime =
       Some \<lparr>active = False, polls = Suc 0, delays = [], finished = startTime + snd (env 0)\<rparr>"
      unfolding waitForFunctionToBeActive_def by (subst wait_loop.simps) simp
    with w show "\<not> active r \<and> polls r = 1 \<and> delays r = []" by auto
  qed
  have c2: "active r \<longrightarrow> 0 < polls r \<and> getFunctionState (fst (env (polls r - 1))) = ''ACTIVE''"
    using p4 by simp
  show ?thesis
    by (rule exI[of _ r]) (intro conjI w c1 c2 c3)
qed

theorem short_circuit_witness:
  "waitForFunctionToBeActive failed_at_once 0 180000 =
     Some \<lparr>active = False, polls = 1, delays = [], finished = 120\<rparr> \<and>
   waitForFunctionToBeActive status_call_fails 0 180000 =
     Some \<lparr>active = False, polls = 1, delays = [], finished = 40\<rparr> \<and>
   waitForFunctionToBeActive active_third 0 180000 =
     Some \<lparr>active = True, polls = 3, delays = [5000, 10000], finished = 15850\<rparr>"
  using short_circuit[of failed_at_once 0 180000] short_circuit[of status_call_fails 0 180000]
    short_circuit[of active_third 0 180000]
    failed_at_once_run status_call_fails_run active_third_run
  by simp


section \<open>Deploying\<close>

text \<open>
  C7 (existence check). Once the archive is uploaded, the probe decides: a failure with code 5
  (NOT_FOUND) leads to \<open>createFunction\<close> and to nothing else, a successful probe leads to
  \<open>updateFunction\<close>, and a failure with any other code rejects the deploy with that error
  before any function is created or updated.
\<close>

theorem existence_check:
  assumes "uploadBuffer be = None"
  shows "(getFunction be = Inl err \<and> code err = Some 5 \<longrightarrow>
            snd (deployFunction cfg be fid) =
              [UploadBuffer (''functions/'' @ fid @ ''/function.zip''),
               GetFunction (functionName cfg fid), CreateFunction (functionName cfg fid)] \<and>
            fst (deployFunction cfg be fid) =
              (case createFunction be of Some e \<Rightarrow> Rejected e
               | None \<Rightarrow> Resolved (functionName cfg fid))) \<and>
         (getFunction be = Inr u \<longrightarrow>
            snd (deployFunction cfg be fid) =
              [UploadBuffer (''functions/'' @ fid @ ''/function.zip''),
               GetFunction (functionName cfg fid), UpdateFunction (functionName cfg fid)] \<and>
            fst (deployFunction cfg be fid) =
              (case updateFunction be of Some e \<Rightarrow> Rejected e
               | None \<Rightarrow> Resolved (functionName cfg fid))) \<and>
         (getFunction be = Inl err \<and> code err \<noteq> Some 5 \<longrightarrow>
            deployFunction cfg be fid =
              (Rejected err, [UploadBuffer (''functions/'' @ fid @ ''/function.zip''),
                              GetFunction (functionName cfg fid)]))"
  using assms by (auto simp: deployFunction_def Let_def split: option.splits)

theorem existence_check_witness:
  "deployFunction cfg0 backend_absent ''f1'' =
     (Resolved ''projects/acme/locations/us-central1/functions/function-f1'',
      [UploadBuffer ''functions/f1/function.zip'',
       GetFunction ''projects/acme/locations/us-central1/functions/function-f1'',
       CreateFunction ''projects/acme/locations/us-central1/functions/function-f1'']) \<and>
   deployFunction cfg0 backend_present ''f1'' =
     (Resolved ''projects/acme/locations/us-central1/functions/function-f1'',
      [UploadBuffer ''functions/f1/function.zip'',
       GetFunction ''projects/acme/locations/us-central1/functions/function-f1'',
       UpdateFunction ''projects/acme/locations/us-central1/functions/function-f1'']) \<and>
   deployFunction cfg0 backend_denied ''f1'' =
     (Rejected (Error (Some 7)),
      [UploadBuffer ''functions/f1/function.zip'',
       GetFunction ''projects/acme/locations/us-central1/functions/function-f1''])"
  using existence_check[of backend_absent "Error (Some 5)" cfg0 "''f1''" "()"]
    existence_check[of backend_present "Error (Some 5)" cfg0 "''f1''" "()"]
    existence_check[of backend_denied "Error (Some 7)" cfg0 "''f1''" "()"]
  by (simp add: backend_absent_def backend_present_def backend_denied_def cfg0_def
      functionName_def prod_eq_iff)

text \<open>
  \<open>deployFunction\<close> is \<open>async\<close>: a failure is a rejected promise, never an exception at
  the call.
\<close>

lemma deployFunction_settles: "fst (deployFunction cfg be fid) \<noteq> Threw e"
  by (simp add: deployFunction_def Let_def split: option.splits sum.splits)


section \<open>The store\<close>

lemma updateOne_matchedCount:
  "matchedCount (fst (updateOne flt upd ds)) = (if \<exists>d\<in>set ds. flt d then 1 else 0)"
  by (induction ds) (auto split: prod.splits)

lemma updateOne_no_match:
  "\<forall>d\<in>set ds. \<not> flt d \<Longrightarrow>
     updateOne flt upd ds = (\<lparr>matchedCount = 0, modifiedCount = 0\<rparr>, ds)"
  by (induction ds) auto

lemma find_SomeD: "find P ds = Some t \<Longrightarrow> t \<in> set ds \<and> P t"
  by (induction ds) (auto split: if_splits)

text \<open>
  An update whose filter is at least as strict as a lookup, and which keeps what the lookup
  looks at, changes the record the lookup finds. With distinct identifiers the changed record is
  then the only one of its identifier.
\<close>

lemma updateOne_first:
  assumes "find P ds = Some t" and "flt t"
    and "\<And>d. flt d \<Longrightarrow> P d" and "\<And>d. P (upd d) = P d"
  shows "fst (updateOne flt upd ds) =
           \<lparr>matchedCount = 1, modifiedCount = (if upd t = t then 0 else 1)\<rparr> \<and>
         find P (snd (updateOne flt upd ds)) = Some (upd t)"
  using assms(1)
proof (induction ds)
  case Nil
  then show ?case by simp
next
  case (Cons d ds)
  show ?case
  proof (cases "P d")
    case True
    with Cons.prems have "d = t" by simp
    with assms(2) True assms(4)[of d] show ?thesis by simp
  next
    case False
    with assms(3)[of d] have nf: "\<not> flt d" by blast
    from False Cons.prems have "find P ds = Some t" by simp
    from Cons.IH[OF this] False nf show ?thesis
      by (simp add: case_prod_beta)
  qed
qed

lemma updateOne_unique:
  assumes "distinct (map tool_id ds)" and "t \<in> set ds" and "flt t"
    and "\<And>d. tool_id (upd d) = tool_id d"
    and "\<And>d. flt d \<Longrightarrow> tool_id d = tool_id t"
  shows "\<forall>d'\<in>set (snd (updateOne flt upd ds)). tool_id d' = tool_id t \<longrightarrow> d' = upd t"
  using assms(1,2)
proof (induction ds)
  case Nil
  then show ?case by simp
next
  case (Cons d ds)
  show ?case
  proof (cases "flt d")
    case True
    then have "tool_id d = tool_id t" by (rule assms(5))
    with Cons.prems have dt: "d = t" by (auto simp: image_iff)
    have "\<forall>d'\<in>set ds. tool_id d' \<noteq> tool_id t"
      using Cons.prems(1) dt by (auto simp: image_iff)
    with True dt show ?thesis by auto
  next
    case False
    with assms(3) have "d \<noteq> t" by blast
    with Cons.prems have tin: "t \<in> set ds" and dis: "distinct (map tool_id ds)" by auto
    have "tool_id d \<noteq> tool_id t" using Cons.prems(1) tin by (auto simp: image_iff)
    with Cons.IH[OF dis tin] False show ?thesis
      by (auto simp: case_prod_beta)
  qed
qed

text \<open>
  C10 (\<open>updateAsset\<close>). For an identifier that \<open>toObjectId\<close> accepts, \<open>updateAsset\<close> returns
  true exactly if the collection holds a document with that identifier, also when the update
  changes no field of it (\<open>modifiedCount\<close> is 0); for an identifier no document has it
  returns false and leaves the collection as it was.
\<close>

theorem updateAsset_matched:
  assumes "toObjectId assetId = Inr i"
  shows "fst (updateAsset toObjectId assetId updateData coll) = Inr (i \<in> fst ` set coll) \<and>
         (i \<in> fst ` set coll \<and>
          modifiedCount (fst (updateOne (\<lambda>d. fst d = i)
             (\<lambda>d. (fst d, set_fields updateData (snd d))) coll)) = 0 \<longrightarrow>
            fst (updateAsset toObjectId assetId updateData coll) = Inr True) \<and>
         (i \<notin> fst ` set coll \<longrightarrow>
            updateAsset toObjectId assetId updateData coll = (Inr False, coll))"
proof -
  let ?u = "updateOne (\<lambda>d. fst d = i) (\<lambda>d. (fst d, set_fields updateData (snd d))) coll"
  have m: "0 < matchedCount (fst ?u) \<longleftrightarrow> i \<in> fst ` set coll"
    by (auto simp: updateOne_matchedCount)
  have r: "fst (updateAsset toObjectId assetId updateData coll) = Inr (i \<in> fst ` set coll)"
    using assms m by (simp add: updateAsset_def case_prod_beta)
  have n: "i \<notin> fst ` set coll \<longrightarrow> updateAsset toObjectId assetId updateData coll = (Inr False, coll)"
  proof
    assume "i \<notin> fst ` set coll"
    then have "\<forall>d\<in>set coll. \<not> fst d = i" by auto
    then have "?u = (\<lparr>matchedCount = 0, modifiedCount = 0\<rparr>, coll)"
      by (rule updateOne_no_match)
    then show "updateAsset toObjectId assetId updateData coll = (Inr False, coll)"
      using assms by (simp add: updateAsset_def)
  qed
  show ?thesis using r n by simp
qed

theorem updateAsset_matched_witness:
  "idOfString ''665f1c2ab3d4e5f60718293a'' = Inr ''665f1c2ab3d4e5f60718293a'' \<and>
   modifiedCount (fst (updateOne (\<lambda>d. fst d = ''665f1c2ab3d4e5f60718293a'')
      (\<lambda>d. (fst d, set_fields [(''filename'', ''icon.png'')] (snd d))) assets0)) = 0 \<and>
   updateAsset idOfString ''665f1c2ab3d4e5f60718293a'' [(''filename'', ''icon.png'')] assets0 =
     (Inr True, assets0) \<and>
   updateAsset idOfString ''000000000000000000000000'' [(''filename'', ''other.png'')] assets0 =
     (Inr False, assets0)"
  using updateAsset_matched[of idOfString "''665f1c2ab3d4e5f60718293a''"
      "''665f1c2ab3d4e5f60718293a''" "[(''filename'', ''icon.png'')]" assets0]
    updateAsset_matched[of idOfString "''000000000000000000000000''"
      "''000000000000000000000000''" "[(''filename'', ''other.png'')]" assets0]
  by (simp add: idOfString_def assets0_def updateAsset_def)


section \<open>Creating a tool\<close>

text \<open>
  C9 (state and function identifier at creation). A create request answered with 302 has
  stored one new tool. If its type is not \<open>FUNCTION_TOOL\<close> the stored tool has state
  \<open>READY\<close> and no function identifier, and \<open>deployFunction\<close> is not called; if its type is
  \<open>FUNCTION_TOOL\<close> the stored tool has state \<open>PENDING\<close> and the identifier that \<open>uuidv4\<close>
  generated.
\<close>

theorem create_persists:
  assumes "addToolApi env b w = (r, w', att)" and "statusCode r = 302"
  shows "(b_type b \<noteq> FUNCTION_TOOL \<longrightarrow>
            (\<exists>t. tools w' = tools w @ [t] \<and> tool_state t = READY \<and> tool_functionId t = None) \<and>
            trace w' = trace w \<and> att = None) \<and>
         (b_type b = FUNCTION_TOOL \<longrightarrow>
            (\<exists>t. tools w' = tools w @ [t] \<and> tool_state t = PENDING \<and>
                 tool_functionId t = Some (uuidv4 env)) \<and>
            trace w' = trace w @ [DeployFunction (uuidv4 env)])"
  using assms
  by (auto simp: addToolApi_def Let_def emit_def addTool_def
      split: option.splits if_splits outcome.splits)

lemma emit_simps [simp]:
  "tools (emit es w) = tools w" "agents (emit es w) = agents w"
  "notifications (emit es w) = notifications w" "trace (emit es w) = trace w @ es"
  by (simp_all add: emit_def)

lemma notify_simps [simp]:
  "tools (notify c n w) = tools w" "agents (notify c n w) = agents w"
  "notifications (notify c n w) = notifications w @ [n]"
  "trace (notify c n w) = trace w @ [EmitNotification c]"
  by (simp_all add: notify_def)

lemma create_run:
  "addToolApi env_create body_function world0 = (DynamicResponse 302, world_created, Some attempt_a)"
  by (simp add: addToolApi_def env_create_def body_function_def world0_def Let_def emit_def
      addTool_def invalidDatasource_def invalidRuntime_def world_created_def tool_adder_def
      attempt_a_def)

lemma create_rag_run:
  "addToolApi env_create body_rag world0 = (DynamicResponse 302, world_rag, None)"
  by (simp add: addToolApi_def env_create_def body_rag_def world0_def Let_def emit_def
      addTool_def invalidDatasource_def invalidRuntime_def world_rag_def)

theorem create_persists_witness:
  "addToolApi env_create body_rag world0 = (DynamicResponse 302, world_rag, None) \<and>
   map tool_state (tools world_rag) = [READY] \<and>
   map tool_functionId (tools world_rag) = [None] \<and>
   trace world_rag = [] \<and>
   addToolApi env_create body_function world0 =
     (DynamicResponse 302, world_created, Some attempt_a) \<and>
   map tool_state (tools world_created) = [PENDING] \<and>
   map tool_functionId (tools world_created) = [Some ''fn-a''] \<and>
   trace world_created = [DeployFunction ''fn-a'']"
  using create_persists[OF create_rag_run] create_persists[OF create_run]
  by (simp add: create_rag_run create_run world_rag_def world_created_def tool_adder_def)

text \<open>
  A deploy promise that is rejected has no handler: the request is answered with 302, the tool
  stays \<open>PENDING\<close>, and nothing of the flow runs after it.
\<close>

lemma rejected_deploy_unhandled:
  assumes "validationError env = None" and "\<not> invalidDatasource env b"
    and "\<not> invalidRuntime env b" and "b_type b = FUNCTION_TOOL"
    and "insertedId env = Some iid" and "deployed env = Rejected e"
  shows "fst (addToolApi env b w) = DynamicResponse 302 \<and>
         snd (snd (addToolApi env b w)) = None \<and>
         trace (fst (snd (addToolApi env b w))) = trace w @ [DeployFunction (uuidv4 env)] \<and>
         map tool_state (tools (fst (snd (addToolApi env b w)))) =
           map tool_state (tools w) @ [PENDING]"
  using assms by (simp add: addToolApi_def Let_def emit_def addTool_def)

text \<open>
  C2 (fatal deploy error), evaluated where the claim fails. The backend has no function of the
  name and \<open>createFunction\<close> fails with code 3, or the probe itself fails with code 7; either
  way \<open>deployFunction\<close> is rejected with that error. The create request is answered with
  302, but the tool is left in state \<open>PENDING\<close>, not \<open>ERROR\<close>, \<open>deleteFunction\<close> is not
  called, and no callback remains that could do either.
\<close>

theorem rejected_deploy_left_pending:
  "deployFunction cfg0 backend_create_fails ''fn-a'' =
     (Rejected (Error (Some 3)),
      [UploadBuffer ''functions/fn-a/function.zip'',
       GetFunction ''projects/acme/locations/us-central1/functions/function-fn-a'',
       CreateFunction ''projects/acme/locations/us-central1/functions/function-fn-a'']) \<and>
   addToolApi env_create_fails body_function world0 =
     (DynamicResponse 302, world_created, None) \<and>
   deployFunction cfg0 backend_denied ''fn-a'' =
     (Rejected (Error (Some 7)),
      [UploadBuffer ''functions/fn-a/function.zip'',
       GetFunction ''projects/acme/locations/us-central1/functions/function-fn-a'']) \<and>
   addToolApi env_denied body_function world0 = (DynamicResponse 302, world_created, None) \<and>
   map tool_state (tools world_created) = [PENDING] \<and>
   trace world_created = [DeployFunction ''fn-a'']"
  by (simp add: deployFunction_def backend_denied_def backend_create_fails_def cfg0_def
      functionName_def Let_def addToolApi_def env_denied_def env_create_fails_def env_create_def
      body_function_def world0_def emit_def addTool_def invalidDatasource_def invalidRuntime_def
      world_created_def tool_adder_def)


section \<open>Editing a tool\<close>

lemma edit_code_run:
  "editToolApi env_edit body_new_code world_created =
     (Inr (DynamicResponse 302), world_edited, Some attempt_b)"
  by (simp add: editToolApi_def env_edit_def env_create_def body_new_code_def body_function_def
      world_created_def world_edited_def tool_edited_def tool_adder_def attempt_b_def Let_def
      emit_def invalidDatasource_def getToolById_def editTool_def functionNeedsUpdate_def)

text \<open>
  When the comparison finds no change, an edit that keeps the type calls no provider
  function.
\<close>

lemma edit_without_update:
  assumes "validationError env = None" and "\<not> invalidDatasource env b"
    and "getToolById (resourceSlug env) (b_toolId b) (tools w) = Some t"
    and "b_type b = FUNCTION_TOOL" and "\<not> functionNeedsUpdate b t"
  shows "\<exists>w'. editToolApi env b w = (Inr (DynamicResponse 302), w', None) \<and>
              trace w' = trace w"
  using assms by (simp add: editToolApi_def Let_def)

text \<open>
  C3 (no redundant redeploy), evaluated where the claim fails. The request repeats the stored
  code, requirements, environment variables and runtime of a \<open>READY\<close> tool and changes the
  description only. The two environment-variable objects are compared by identity, so
  \<open>deployFunction\<close> is called with a new identifier, and the state is written \<open>PENDING\<close>.
  When neither side has environment variables the comparison finds no change and nothing is
  deployed, but the state is \<open>PENDING\<close> all the same, with no attempt left to resolve it.
\<close>

theorem description_edit_redeploys:
  "b_code body_describe = tool_code tool_ready \<and>
   b_requirements body_describe = tool_requirements tool_ready \<and>
   b_environmentVariables body_describe = tool_environmentVariables tool_ready \<and>
   b_runtime body_describe = tool_runtime tool_ready \<and>
   editToolApi env_edit body_describe world_ready =
     (Inr (DynamicResponse 302),
      \<lparr>tools = [tool_ready\<lparr>tool_description := ''adds two numbers'', tool_state := PENDING\<rparr>],
       agents = [agent_using_adder], notifications = [], trace = [DeployFunction ''fn-b'']\<rparr>,
      Some \<lparr>e_toolId = ''aaaaaaaaaaaaaaaaaaaaaaaa'', e_teamId = ''team-1'', e_functionId = ''fn-b'',
            e_name = ''adder'', e_existingTool = tool_ready\<rparr>) \<and>
   editToolApi env_edit body_describe_noenv world_ready_noenv =
     (Inr (DynamicResponse 302),
      \<lparr>tools = [tool_ready\<lparr>tool_environmentVariables := JUndefined,
                 tool_description := ''adds two numbers'', tool_state := PENDING\<rparr>],
       agents = [agent_using_adder], notifications = [], trace = []\<rparr>,
      None)"
  by (simp add: editToolApi_def env_edit_def env_create_def body_describe_def
      body_describe_noenv_def body_function_def world_ready_def world_ready_noenv_def
      tool_ready_def tool_adder_def Let_def emit_def invalidDatasource_def getToolById_def
      editTool_def functionNeedsUpdate_def)

text \<open>
  What the edit flow's conditional update does to the record it matches.
\<close>

lemma edit_cas_matches:
  assumes "getToolById (e_teamId att) (e_toolId att) ts = Some t"
    and "tool_state t = PENDING" and "tool_type t = FUNCTION_TOOL"
  shows "\<exists>ts'. editToolUnsafe
             (\<lambda>t. tool_id t = e_toolId att \<and> tool_teamId t = e_teamId att \<and>
                  tool_state t = PENDING \<and> tool_type t = FUNCTION_TOOL)
             (\<lambda>t. t\<lparr>tool_state := (if isActive then READY else ERROR),
                    tool_functionId :=
                      (if isActive then Some (e_functionId att) else tool_functionId t),
                    tool_functionLogs :=
                      (if \<not> isActive \<and> logsTruthy logs then logs else tool_functionLogs t)\<rparr>)
             ts = (\<lparr>matchedCount = 1, modifiedCount = 1\<rparr>, ts') \<and>
           getToolById (e_teamId att) (e_toolId att) ts' =
             Some (t\<lparr>tool_state := (if isActive then READY else ERROR),
                    tool_functionId :=
                      (if isActive then Some (e_functionId att) else tool_functionId t),
                    tool_functionLogs :=
                      (if \<not> isActive \<and> logsTruthy logs then logs else tool_functionLogs t)\<rparr>)"
proof -
  let ?P = "\<lambda>t. tool_id t = e_toolId att \<and> tool_teamId t = e_teamId att"
  let ?flt = "\<lambda>t. tool_id t = e_toolId att \<and> tool_teamId t = e_teamId att \<and>
                  tool_state t = PENDING \<and> tool_type t = FUNCTION_TOOL"
  let ?upd = "\<lambda>t. t\<lparr>tool_state := (if isActive then READY else ERROR),
                    tool_functionId :=
                      (if isActive then Some (e_functionId att) else tool_functionId t),
                    tool_functionLogs :=
                      (if \<not> isActive \<and> logsTruthy logs then logs else tool_functionLogs t)\<rparr>"
  have f: "find ?P ts = Some t" using assms(1) by (simp add: getToolById_def)
  then have pt: "?P t" using find_SomeD by fast
  have ft: "?flt t" using pt assms(2,3) by simp
  have ne: "?upd t \<noteq> t"
  proof
    assume "?upd t = t"
    then have "tool_state (?upd t) = tool_state t" by simp
    with assms(2) show False by (simp split: if_splits)
  qed
  from updateOne_first[of ?P ts t ?flt ?upd, OF f ft] ne
  have "fst (updateOne ?flt ?upd ts) = \<lparr>matchedCount = 1, modifiedCount = 1\<rparr> \<and>
        find ?P (snd (updateOne ?flt ?upd ts)) = Some (?upd t)"
    by simp
  then show ?thesis
    by (simp add: editToolUnsafe_def getToolById_def prod_eq_iff)
qed

text \<open>
  C6 (outcomes of the edit flow's reconciliation). Let the record of the tool be \<open>PENDING\<close>
  and of type \<open>FUNCTION_TOOL\<close>, so that the conditional update matches it. If the new
  function is active, the record is written \<open>READY\<close> with the new function identifier
  and then \<open>deleteFunction\<close> is called for the function identifier the tool had when the edit
  request read it, if it had one. If the new function is not active, the record is written
  \<open>ERROR\<close>, with the logs if any were fetched, and then \<open>deleteFunction\<close> is called for the
  new function.
\<close>

theorem edit_reconciliation:
  assumes "getToolById (e_teamId att) (e_toolId att) (tools w) = Some t"
    and "tool_state t = PENDING" and "tool_type t = FUNCTION_TOOL"
  shows "getToolById (e_teamId att) (e_toolId att) (tools (editToolApi_resolved True logs att w)) =
           Some (t\<lparr>tool_state := READY, tool_functionId := Some (e_functionId att)\<rparr>) \<and>
         trace (editToolApi_resolved True logs att w) =
           trace w @ [GetFunctionLogs (e_functionId att), EmitNotification (e_teamId att)]
             @ (if functionIdTruthy (tool_functionId (e_existingTool att))
                then [DeleteFunction (tool_functionId (e_existingTool att))] else []) \<and>
         getToolById (e_teamId att) (e_toolId att) (tools (editToolApi_resolved False logs att w)) =
           Some (t\<lparr>tool_state := ERROR,
                  tool_functionLogs := (if logsTruthy logs then logs else tool_functionLogs t)\<rparr>) \<and>
         trace (editToolApi_resolved False logs att w) =
           trace w @ [GetFunctionLogs (e_functionId att), EmitNotification (e_teamId att),
                      DeleteFunction (Some (e_functionId att))]"
proof -
  have t': "getToolById (e_teamId att) (e_toolId att) (tools (emit [GetFunctionLogs (e_functionId att)] w)) = Some t"
    using assms(1) by simp
  from edit_cas_matches[OF t' assms(2,3), of True logs]
  obtain ts1 where a: "editToolUnsafe
             (\<lambda>t. tool_id t = e_toolId att \<and> tool_teamId t = e_teamId att \<and>
                  tool_state t = PENDING \<and> tool_type t = FUNCTION_TOOL)
             (\<lambda>t. t\<lparr>tool_state := (if True then READY else ERROR),
                    tool_functionId :=
                      (if True then Some (e_functionId att) else tool_functionId t),
                    tool_functionLogs :=
                      (if \<not> True \<and> logsTruthy logs then logs else tool_functionLogs t)\<rparr>)
             (tools (emit [GetFunctionLogs (e_functionId att)] w)) = (\<lparr>matchedCount = 1, modifiedCount = 1\<rparr>, ts1)"
    and a': "getToolById (e_teamId att) (e_toolId att) ts1 =
             Some (t\<lparr>tool_state := (if True then READY else ERROR),
                    tool_functionId :=
                      (if True then Some (e_functionId att) else tool_functionId t),
                    tool_functionLogs :=
                      (if \<not> True \<and> logsTruthy logs then logs else tool_functionLogs t)\<rparr>)"
    by blast
  from edit_cas_matches[OF t' assms(2,3), of False logs]
  obtain ts2 where b: "editToolUnsafe
             (\<lambda>t. tool_id t = e_toolId att \<and> tool_teamId t = e_teamId att \<and>
                  tool_state t = PENDING \<and> tool_type t = FUNCTION_TOOL)
             (\<lambda>t. t\<lparr>tool_state := (if False then READY else ERROR),
                    tool_functionId :=
                      (if False then Some (e_functionId att) else tool_functionId t),
                    tool_functionLogs :=
                      (if \<not> False \<and> logsTruthy logs then logs else tool_functionLogs t)\<rparr>)
             (tools (emit [GetFunctionLogs (e_functionId att)] w)) = (\<lparr>matchedCount = 1, modifiedCount = 1\<rparr>, ts2)"
    and b': "getToolById (e_teamId att) (e_toolId att) ts2 =
             Some (t\<lparr>tool_state := (if False then READY else ERROR),
                    tool_functionId :=
                      (if False then Some (e_functionId att) else tool_functionId t),
                    tool_functionLogs :=
                      (if \<not> False \<and> logsTruthy logs then logs else tool_functionLogs t)\<rparr>)"
    by blast
  have c1: "getToolById (e_teamId att) (e_toolId att) (tools (editToolApi_resolved True logs att w)) =
           Some (t\<lparr>tool_state := READY, tool_functionId := Some (e_functionId att)\<rparr>)"
    using a a' by (simp add: editToolApi_resolved_def Let_def)
  have c2: "trace (editToolApi_resolved True logs att w) =
           trace w @ [GetFunctionLogs (e_functionId att), EmitNotification (e_teamId att)]
             @ (if functionIdTruthy (tool_functionId (e_existingTool att))
                then [DeleteFunction (tool_functionId (e_existingTool att))] else [])"
    using a by (simp add: editToolApi_resolved_def Let_def)
  have c3: "getToolById (e_teamId att) (e_toolId att) (tools (editToolApi_resolved False logs att w)) =
           Some (t\<lparr>tool_state := ERROR,
                  tool_functionLogs := (if logsTruthy logs then logs else tool_functionLogs t)\<rparr>)"
    using b b' by (simp add: editToolApi_resolved_def Let_def)
  have c4: "trace (editToolApi_resolved False logs att w) =
           trace w @ [GetFunctionLogs (e_functionId att), EmitNotification (e_teamId att),
                      DeleteFunction (Some (e_functionId att))]"
    using b by (simp add: editToolApi_resolved_def Let_def)
  show ?thesis using c1 c2 c3 c4 by simp
qed

theorem edit_reconciliation_witness:
  "getToolById ''team-1'' ''aaaaaaaaaaaaaaaaaaaaaaaa'' (tools world_edited) = Some tool_edited \<and>
   tool_state tool_edited = PENDING \<and> tool_type tool_edited = FUNCTION_TOOL \<and>
   getToolById ''team-1'' ''aaaaaaaaaaaaaaaaaaaaaaaa'' (tools world_b_active) =
     Some (tool_edited\<lparr>tool_state := READY, tool_functionId := Some ''fn-b''\<rparr>) \<and>
   trace world_b_active = trace world_edited @
     [GetFunctionLogs ''fn-b'', EmitNotification ''team-1'', DeleteFunction (Some ''fn-a'')] \<and>
   getToolById ''team-1'' ''aaaaaaaaaaaaaaaaaaaaaaaa'' (tools world_b_failed) =
     Some (tool_edited\<lparr>tool_state := ERROR, tool_functionLogs := Some ''ModuleNotFoundError''\<rparr>) \<and>
   trace world_b_failed = trace world_edited @
     [GetFunctionLogs ''fn-b'', EmitNotification ''team-1'', DeleteFunction (Some ''fn-b'')]"
  using edit_reconciliation[where att = attempt_b and w = world_edited and t = tool_edited
      and logs = None]
    edit_reconciliation[where att = attempt_b and w = world_edited and t = tool_edited
      and logs = "Some ''ModuleNotFoundError''"]
  by (simp add: world_edited_def tool_edited_def tool_adder_def getToolById_def attempt_b_def
      world_b_active_def world_b_failed_def logsTruthy_def functionIdTruthy_def)


section \<open>Overlapping attempts\<close>

lemma world_b_failed_run:
  "world_b_failed =
     \<lparr>tools = [tool_edited\<lparr>tool_state := ERROR, tool_functionLogs := Some ''ModuleNotFoundError''\<rparr>],
      agents = [],
      notifications = [deployNotification ''team-1'' ''aaaaaaaaaaaaaaaaaaaaaaaa'' ''adder'' False],
      trace = [DeployFunction ''fn-a'', DeployFunction ''fn-b'', GetFunctionLogs ''fn-b'',
               EmitNotification ''team-1'', DeleteFunction (Some ''fn-b'')]\<rparr>"
  by (simp add: world_b_failed_def editToolApi_resolved_def attempt_b_def world_edited_def
      tool_edited_def tool_adder_def Let_def emit_def notify_def editToolUnsafe_def
      logsTruthy_def functionIdTruthy_def)

lemma world_b_active_run:
  "world_b_active =
     \<lparr>tools = [tool_edited\<lparr>tool_state := READY, tool_functionId := Some ''fn-b''\<rparr>],
      agents = [],
      notifications = [deployNotification ''team-1'' ''aaaaaaaaaaaaaaaaaaaaaaaa'' ''adder'' True],
      trace = [DeployFunction ''fn-a'', DeployFunction ''fn-b'', GetFunctionLogs ''fn-b'',
               EmitNotification ''team-1'', DeleteFunction (Some ''fn-a'')]\<rparr>"
  by (simp add: world_b_active_def editToolApi_resolved_def attempt_b_def world_edited_def
      tool_edited_def tool_adder_def Let_def emit_def notify_def editToolUnsafe_def
      logsTruthy_def functionIdTruthy_def)

lemma create_resolves_late_run:
  "addToolApi_resolved True None attempt_a world_b_failed =
     \<lparr>tools = [tool_edited\<lparr>tool_state := READY, tool_functionLogs := Some ''ModuleNotFoundError''\<rparr>],
      agents = [],
      notifications = [deployNotification ''team-1'' ''aaaaaaaaaaaaaaaaaaaaaaaa'' ''adder'' False,
                       deployNotification ''team-1'' ''aaaaaaaaaaaaaaaaaaaaaaaa'' ''adder'' True],
      trace = [DeployFunction ''fn-a'', DeployFunction ''fn-b'', GetFunctionLogs ''fn-b'',
               EmitNotification ''team-1'', DeleteFunction (Some ''fn-b''),
               GetFunctionLogs ''fn-a'', EmitNotification ''team-1'']\<rparr>"
  by (simp add: world_b_failed_run addToolApi_resolved_def attempt_a_def
      tool_edited_def tool_adder_def Let_def emit_def notify_def editToolUnsafe_def
      logsTruthy_def)

text \<open>
  C1 (supersession) fails as stated. Attempt A is the creation of a tool (function \<open>fn-a\<close>),
  attempt B an edit of its code (function \<open>fn-b\<close>) made while A is still waiting. B's function
  fails to activate and B's conditional update commits \<open>ERROR\<close>; the record keeps
  \<open>fn-a\<close>, since an edit writes its identifier only on success. When A then resolves as
  active, its conditional update, keyed on the function identifier, matches: the record
  becomes \<open>READY\<close>, and \<open>fn-a\<close> is not deleted.
\<close>

theorem late_create_after_failed_edit:
  "addToolApi env_create body_function world0 =
     (DynamicResponse 302, world_created, Some attempt_a) \<and>
   editToolApi env_edit body_new_code world_created =
     (Inr (DynamicResponse 302), world_edited, Some attempt_b) \<and>
   world_b_failed = editToolApi_resolved False (Some ''ModuleNotFoundError'') attempt_b world_edited \<and>
   map tool_state (tools world_b_failed) = [ERROR] \<and>
   tools (addToolApi_resolved True None attempt_a world_b_failed) \<noteq> tools world_b_failed \<and>
   map tool_state (tools (addToolApi_resolved True None attempt_a world_b_failed)) = [READY] \<and>
   map tool_functionId (tools (addToolApi_resolved True None attempt_a world_b_failed)) =
     [Some ''fn-a''] \<and>
   DeleteFunction (Some ''fn-a'') \<notin>
     set (trace (addToolApi_resolved True None attempt_a world_b_failed))"
proof -
  have "map tool_state (tools world_b_failed) = [ERROR]"
    by (simp add: world_b_failed_run)
  moreover have "tools (addToolApi_resolved True None attempt_a world_b_failed) \<noteq>
      tools world_b_failed"
    by (simp only: create_resolves_late_run)
      (simp add: world_b_failed_run tool_edited_def tool_adder_def)
  moreover have
    "map tool_state (tools (addToolApi_resolved True None attempt_a world_b_failed)) = [READY]"
    "map tool_functionId (tools (addToolApi_resolved True None attempt_a world_b_failed)) =
       [Some ''fn-a'']"
    "DeleteFunction (Some ''fn-a'') \<notin>
       set (trace (addToolApi_resolved True None attempt_a world_b_failed))"
    by (simp_all add: create_resolves_late_run tool_edited_def tool_adder_def)
  ultimately show ?thesis
    using create_run edit_code_run world_b_failed_def by simp
qed

lemma after_edit_cas:
  assumes d: "distinct (map tool_id ts)"
    and g: "getToolById (e_teamId att) (e_toolId att) ts = Some t"
    and p: "tool_state t = PENDING" and f: "tool_type t = FUNCTION_TOOL"
  shows "\<forall>d'\<in>set (snd (editToolUnsafe
             (\<lambda>t. tool_id t = e_toolId att \<and> tool_teamId t = e_teamId att \<and>
                  tool_state t = PENDING \<and> tool_type t = FUNCTION_TOOL)
             (\<lambda>t. t\<lparr>tool_state := (if isActive then READY else ERROR),
                    tool_functionId :=
                      (if isActive then Some (e_functionId att) else tool_functionId t),
                    tool_functionLogs :=
                      (if \<not> isActive \<and> logsTruthy logs then logs else tool_functionLogs t)\<rparr>)
             ts)).
           tool_id d' = e_toolId att \<longrightarrow>
             tool_state d' \<noteq> PENDING \<and> (isActive \<longrightarrow> tool_functionId d' = Some (e_functionId att))"
proof -
  let ?flt = "\<lambda>t. tool_id t = e_toolId att \<and> tool_teamId t = e_teamId att \<and>
                  tool_state t = PENDING \<and> tool_type t = FUNCTION_TOOL"
  let ?upd = "\<lambda>t. t\<lparr>tool_state := (if isActive then READY else ERROR),
                    tool_functionId :=
                      (if isActive then Some (e_functionId att) else tool_functionId t),
                    tool_functionLogs :=
                      (if \<not> isActive \<and> logsTruthy logs then logs else tool_functionLogs t)\<rparr>"
  from g have "find (\<lambda>t. tool_id t = e_toolId att \<and> tool_teamId t = e_teamId att) ts = Some t"
    by (simp add: getToolById_def)
  then have tin: "t \<in> set ts" and tid: "tool_id t = e_toolId att" and tteam: "tool_teamId t = e_teamId att"
    using find_SomeD by fast+
  have ft: "?flt t" using tid tteam p f by simp
  have u: "\<forall>d'\<in>set (snd (updateOne ?flt ?upd ts)). tool_id d' = tool_id t \<longrightarrow> d' = ?upd t"
    by (rule updateOne_unique[where ds=ts and t=t and flt="?flt" and upd="?upd", OF d tin ft])
      (simp_all add: tid)
  show ?thesis
    unfolding editToolUnsafe_def
  proof (intro ballI impI)
    fix d' assume "d' \<in> set (snd (updateOne ?flt ?upd ts))" and "tool_id d' = e_toolId att"
    with u tid have "d' = ?upd t" by simp
    then show "tool_state d' \<noteq> PENDING \<and> (isActive \<longrightarrow> tool_functionId d' = Some (e_functionId att))"
      by simp
  qed
qed

text \<open>
  C1 (supersession), amended. Let tool identifiers be distinct in the store, and let B be an
  edit attempt whose conditional update commits. The record then holds B's outcome. If an
  attempt A for the same tool resolves next, and A is an edit attempt, or A is the create
  attempt and B's function was active (so that B wrote its own function identifier, which
  differs from A's), then A's conditional update affects no record, A calls \<open>deleteFunction\<close>
  for its own function and changes nothing else: the store stays as B left it.
\<close>

theorem supersession:
  assumes "distinct (map tool_id (tools w0))"
    and "getToolById s i (tools w0) = Some t"
    and "tool_state t = PENDING" and "tool_type t = FUNCTION_TOOL"
    and "e_toolId attB = i" and "e_teamId attB = s"
    and "w1 = editToolApi_resolved actB logsB attB w0"
  shows "getToolById s i (tools w1) =
           Some (t\<lparr>tool_state := (if actB then READY else ERROR),
                  tool_functionId := (if actB then Some (e_functionId attB) else tool_functionId t),
                  tool_functionLogs :=
                    (if \<not> actB \<and> logsTruthy logsB then logsB else tool_functionLogs t)\<rparr>) \<and>
         (e_toolId attA = i \<and> e_teamId attA = s \<longrightarrow>
            editToolApi_resolved actA logsA attA w1 =
              emit [GetFunctionLogs (e_functionId attA), DeleteFunction (Some (e_functionId attA))] w1) \<and>
         (a_insertedId attC = i \<and> a_teamId attC = s \<and> actB \<and>
          a_functionId attC \<noteq> e_functionId attB \<longrightarrow>
            addToolApi_resolved actA logsA attC w1 =
              emit [GetFunctionLogs (a_functionId attC), DeleteFunction (Some (a_functionId attC))] w1)"
proof -
  let ?w0 = "emit [GetFunctionLogs (e_functionId attB)] w0"
  let ?fltB = "\<lambda>t. tool_id t = e_toolId attB \<and> tool_teamId t = e_teamId attB \<and>
                  tool_state t = PENDING \<and> tool_type t = FUNCTION_TOOL"
  let ?updB = "\<lambda>t. t\<lparr>tool_state := (if actB then READY else ERROR),
                    tool_functionId :=
                      (if actB then Some (e_functionId attB) else tool_functionId t),
                    tool_functionLogs :=
                      (if \<not> actB \<and> logsTruthy logsB then logsB else tool_functionLogs t)\<rparr>"
  have g: "getToolById (e_teamId attB) (e_toolId attB) (tools ?w0) = Some t"
    using assms(2,5,6) by simp
  have dd: "distinct (map tool_id (tools ?w0))" using assms(1) by simp
  from edit_cas_matches[OF g assms(3,4), of actB logsB]
  obtain ts1 where cas: "editToolUnsafe ?fltB ?updB (tools ?w0) =
        (\<lparr>matchedCount = 1, modifiedCount = 1\<rparr>, ts1)"
    and rec: "getToolById (e_teamId attB) (e_toolId attB) ts1 = Some (?updB t)"
    by blast
  have tw1: "tools w1 = ts1"
    using cas assms(7) by (simp add: editToolApi_resolved_def Let_def)
  have "\<forall>d'\<in>set (snd (editToolUnsafe ?fltB ?updB (tools ?w0))). tool_id d' = e_toolId attB \<longrightarrow>
       tool_state d' \<noteq> PENDING \<and> (actB \<longrightarrow> tool_functionId d' = Some (e_functionId attB))"
    by (rule after_edit_cas[OF dd g assms(3,4)])
  then have "\<forall>d'\<in>set ts1. tool_id d' = e_toolId attB \<longrightarrow>
       tool_state d' \<noteq> PENDING \<and> (actB \<longrightarrow> tool_functionId d' = Some (e_functionId attB))"
    unfolding cas snd_conv .
  then have post: "\<forall>d'\<in>set ts1. tool_id d' = i \<longrightarrow>
       tool_state d' \<noteq> PENDING \<and> (actB \<longrightarrow> tool_functionId d' = Some (e_functionId attB))"
    unfolding assms(5) .
  have c1: "getToolById s i (tools w1) = Some (?updB t)"
    using rec tw1 assms(5,6) by simp
  have c2: "e_toolId attA = i \<and> e_teamId attA = s \<longrightarrow>
            editToolApi_resolved actA logsA attA w1 =
              emit [GetFunctionLogs (e_functionId attA), DeleteFunction (Some (e_functionId attA))] w1"
  proof
    assume h: "e_toolId attA = i \<and> e_teamId attA = s"
    let ?fltA = "\<lambda>t. tool_id t = e_toolId attA \<and> tool_teamId t = e_teamId attA \<and>
                  tool_state t = PENDING \<and> tool_type t = FUNCTION_TOOL"
    have "\<forall>d\<in>set (tools (emit [GetFunctionLogs (e_functionId attA)] w1)). \<not> ?fltA d"
      using post tw1 h by auto
    then have "\<And>upd. editToolUnsafe ?fltA upd (tools (emit [GetFunctionLogs (e_functionId attA)] w1)) =
        (\<lparr>matchedCount = 0, modifiedCount = 0\<rparr>, tools (emit [GetFunctionLogs (e_functionId attA)] w1))"
      unfolding editToolUnsafe_def by (rule updateOne_no_match)
    then show "editToolApi_resolved actA logsA attA w1 =
              emit [GetFunctionLogs (e_functionId attA), DeleteFunction (Some (e_functionId attA))] w1"
      by (simp add: editToolApi_resolved_def Let_def emit_def)
  qed
  have c3: "a_insertedId attC = i \<and> a_teamId attC = s \<and> actB \<and>
          a_functionId attC \<noteq> e_functionId attB \<longrightarrow>
            addToolApi_resolved actA logsA attC w1 =
              emit [GetFunctionLogs (a_functionId attC), DeleteFunction (Some (a_functionId attC))] w1"
  proof
    assume h: "a_insertedId attC = i \<and> a_teamId attC = s \<and> actB \<and>
          a_functionId attC \<noteq> e_functionId attB"
    let ?fltC = "\<lambda>t. tool_id t = a_insertedId attC \<and> tool_teamId t = a_teamId attC \<and>
                  tool_functionId t = Some (a_functionId attC) \<and> tool_type t = FUNCTION_TOOL"
    have "\<forall>d\<in>set (tools (emit [GetFunctionLogs (a_functionId attC)] w1)). \<not> ?fltC d"
      using post tw1 h by auto
    then have "\<And>upd. editToolUnsafe ?fltC upd (tools (emit [GetFunctionLogs (a_functionId attC)] w1)) =
        (\<lparr>matchedCount = 0, modifiedCount = 0\<rparr>, tools (emit [GetFunctionLogs (a_functionId attC)] w1))"
      unfolding editToolUnsafe_def by (rule updateOne_no_match)
    then show "addToolApi_resolved actA logsA attC w1 =
              emit [GetFunctionLogs (a_functionId attC), DeleteFunction (Some (a_functionId attC))] w1"
      by (simp add: addToolApi_resolved_def Let_def emit_def)
  qed
  show ?thesis using c1 c2 c3 by simp
qed

theorem supersession_witness:
  "distinct (map tool_id (tools world_edited)) \<and>
   getToolById ''team-1'' ''aaaaaaaaaaaaaaaaaaaaaaaa'' (tools world_edited) = Some tool_edited \<and>
   tool_state tool_edited = PENDING \<and> tool_type tool_edited = FUNCTION_TOOL \<and>
   getToolById ''team-1'' ''aaaaaaaaaaaaaaaaaaaaaaaa'' (tools world_b_active) =
     Some (tool_edited\<lparr>tool_state := READY, tool_functionId := Some ''fn-b''\<rparr>) \<and>
   editToolApi_resolved True None attempt_e world_b_active =
     emit [GetFunctionLogs ''fn-e'', DeleteFunction (Some ''fn-e'')] world_b_active \<and>
   addToolApi_resolved True None attempt_a world_b_active =
     emit [GetFunctionLogs ''fn-a'', DeleteFunction (Some ''fn-a'')] world_b_active"
  using supersession[where ?w0.0 = world_edited and s = "''team-1''"
      and i = "''aaaaaaaaaaaaaaaaaaaaaaaa''" and t = tool_edited and attB = attempt_b
      and ?w1.0 = world_b_active and actB = True and logsB = None and attA = attempt_e
      and attC = attempt_a and actA = True and logsA = None]
  by (simp add: world_edited_def tool_edited_def tool_adder_def getToolById_def attempt_b_def
      attempt_e_def attempt_a_def world_b_active_def)


section \<open>Deleting a tool\<close>

text \<open>
  C8 (order of deletion). A delete request for a stored tool of type \<open>FUNCTION_TOOL\<close> first
  calls \<open>deleteFunction\<close> with the tool's function identifier. Only if that call succeeds are
  the tool and the agents' references to it removed, after it; if it fails, the request fails
  and the store is as before.
\<close>

theorem delete_order:
  assumes "toolId \<noteq> []" and "length toolId = 24"
    and "getToolById (resourceSlug env) toolId (tools w) = Some t"
    and "tool_type t = FUNCTION_TOOL"
  shows "(deleted env = None \<longrightarrow>
            deleteToolApi env toolId w =
              (Inr (DynamicResponse 302),
               w\<lparr>trace := trace w @ [DeleteFunction (tool_functionId t), DeleteToolById toolId,
                                      RemoveAgentsTool toolId],
                 tools := deleteToolById (resourceSlug env) toolId (tools w),
                 agents := removeAgentsTool (resourceSlug env) toolId (agents w)\<rparr>)) \<and>
         (\<forall>e. deleted env = Some e \<longrightarrow>
            deleteToolApi env toolId w =
              (Inl e, w\<lparr>trace := trace w @ [DeleteFunction (tool_functionId t)]\<rparr>))"
  using assms by (simp add: deleteToolApi_def removeTool_def emit_def Let_def)

theorem delete_order_witness:
  "getToolById (resourceSlug env_create) ''aaaaaaaaaaaaaaaaaaaaaaaa'' (tools world_ready) =
     Some tool_ready \<and>
   tool_type tool_ready = FUNCTION_TOOL \<and> tool_functionId tool_ready = Some ''fn-123'' \<and>
   deleteToolApi env_create ''aaaaaaaaaaaaaaaaaaaaaaaa'' world_ready =
     (Inr (DynamicResponse 302),
      \<lparr>tools = [], agents = [agent_using_adder\<lparr>agent_toolIds := []\<rparr>], notifications = [],
       trace = [DeleteFunction (Some ''fn-123''), DeleteToolById ''aaaaaaaaaaaaaaaaaaaaaaaa'',
                RemoveAgentsTool ''aaaaaaaaaaaaaaaaaaaaaaaa'']\<rparr>) \<and>
   deleteToolApi (env_create\<lparr>deleted := Some (Error (Some 13))\<rparr>) ''aaaaaaaaaaaaaaaaaaaaaaaa''
       world_ready =
     (Inl (Error (Some 13)), world_ready\<lparr>trace := [DeleteFunction (Some ''fn-123'')]\<rparr>)"
  using delete_order[of "''aaaaaaaaaaaaaaaaaaaaaaaa''" env_create world_ready tool_ready]
    delete_order[of "''aaaaaaaaaaaaaaaaaaaaaaaa''" "env_create\<lparr>deleted := Some (Error (Some 13))\<rparr>"
      world_ready tool_ready]
  by (simp add: env_create_def world_ready_def tool_ready_def tool_adder_def
      agent_using_adder_def getToolById_def deleteToolById_def removeAgentsTool_def)

end
